theory Spec2Isabelle
  imports Main "HOL-Library.Char_ord" "HOL-Library.List_Lexorder" "HOL-Library.AList"
begin

section \<open>The deck model of helper\_cli.py\<close>

text \<open>
  Card identifiers and colour labels are Python \<open>str\<close> values. A \<open>string\<close> here is the
  list of the bytes of its UTF-8 encoding, ordered lexicographically byte by byte
  (\<open>Char_ord\<close>, \<open>List_Lexorder\<close>); on UTF-8 this is the order of the code points, which is
  how Python compares \<open>str\<close> values, a proper prefix being smaller.

  The class \<open>Decks\<close> has three attributes. \<open>card_to_color\<close> is a Python \<open>dict\<close>: it is kept
  as an association list in insertion order, read through \<open>map_of\<close>, written with
  \<open>AList.update\<close> (an existing key keeps its place, a new key goes to the end) and
  \<open>AList.delete\<close>.
\<close>

type_synonym card = string

record Decks =
  infection_deck :: "card list list"
  discard_pile :: "card list"
  card_to_color :: "(card \<times> string) list"

text \<open>
  The exceptions the modelled code can raise. \<open>Untyped\<close> is not one of them: it marks a
  loaded value that the typed record cannot hold (see \<open>load\<close>).
\<close>

datatype error = IndexError | KeyError | JSONDecodeError | AttributeError | Untyped

text \<open>
  A method that raises does so before it has assigned anything (\<open>draw\<close> at the read of
  \<open>self.infection_deck[0]\<close>, \<open>unmark_card\<close> at the \<open>del\<close>), so after a failed call the
  object is the one before the call.
\<close>

definition state_after :: "Decks \<Rightarrow> error + Decks \<Rightarrow> Decks" where
  "state_after self r = (case r of Inl e \<Rightarrow> self | Inr self' \<Rightarrow> self')"

subsection \<open>Mutations\<close>

text \<open>
  \<^verbatim>\<open>
  def draw(self, card):
      if card in self.infection_deck[0]:
          self.infection_deck[0].remove(card)
          if not self.infection_deck[0]:
              self.infection_deck.pop(0)
      self.discard_pile.append(card)
      self.discard_pile.sort()
  \<close>
  \<open>list.remove\<close> deletes the first occurrence (\<open>remove1\<close>); \<open>list.sort\<close> on strings gives
  the ascending arrangement (\<open>sort\<close>).
\<close>

definition draw :: "Decks \<Rightarrow> card \<Rightarrow> error + Decks" where
  "draw self c =
     (case infection_deck self of
        [] \<Rightarrow> Inl IndexError
      | deck0 # rest \<Rightarrow>
          Inr (self\<lparr>infection_deck :=
                     (if c \<in> set deck0
                      then (if remove1 c deck0 = [] then rest else remove1 c deck0 # rest)
                      else deck0 # rest),
                   discard_pile := sort (discard_pile self @ [c])\<rparr>))"

text \<open>
  \<^verbatim>\<open>
  def reshuffle_discard(self):
      if len(self.discard_pile) > 0:
          self.infection_deck.insert(0, list(self.discard_pile))
          self.discard_pile = []
  \<close>
\<close>

definition reshuffle_discard :: "Decks \<Rightarrow> Decks" where
  "reshuffle_discard self =
     (if length (discard_pile self) > 0
      then self\<lparr>infection_deck := discard_pile self # infection_deck self, discard_pile := []\<rparr>
      else self)"

text \<open>
  \<^verbatim>\<open>
  def remove_discard(self, card):
      if card in self.discard_pile:
          self.discard_pile.remove(card)
  \<close>
\<close>

definition remove_discard :: "Decks \<Rightarrow> card \<Rightarrow> Decks" where
  "remove_discard self c =
     (if c \<in> set (discard_pile self)
      then self\<lparr>discard_pile := remove1 c (discard_pile self)\<rparr>
      else self)"

text \<open>
  \<^verbatim>\<open>
  def mark_card(self, card, color):
      self.card_to_color[card] = color

  def unmark_card(self, card):
      del self.card_to_color[card]
  \<close>
  \<open>del d[k]\<close> raises \<open>KeyError\<close> when \<open>k\<close> is not a key of \<open>d\<close>.
\<close>

definition mark_card :: "Decks \<Rightarrow> card \<Rightarrow> string \<Rightarrow> Decks" where
  "mark_card self c color =
     self\<lparr>card_to_color := AList.update c color (card_to_color self)\<rparr>"

definition unmark_card :: "Decks \<Rightarrow> card \<Rightarrow> error + Decks" where
  "unmark_card self c =
     (if c \<in> fst ` set (card_to_color self)
      then Inr (self\<lparr>card_to_color := AList.delete c (card_to_color self)\<rparr>)
      else Inl KeyError)"

subsection \<open>The grouped summary of \_print\_formatting\<close>

text \<open>
  \<^verbatim>\<open>
  def compare(self, item1, item2):
      count1 = item1[0]
      count2 = item2[0]
      if count1 > count2:
          return -1
      elif count2 > count1:
          return 1
      else:
          name1 = item1[1]
          name2 = item2[1]
          if name1 > name2:
              return 1
          elif name2 > name1:
              return -1
          else:
              return 0
  \<close>
  The counts are the values of \<open>card_counts\<close>, which start at 0 and grow by 1: naturals.
\<close>

definition compare :: "nat \<times> card \<Rightarrow> nat \<times> card \<Rightarrow> int" where
  "compare item1 item2 =
     (let count1 = fst item1; count2 = fst item2 in
      if count1 > count2 then - 1
      else if count2 > count1 then 1
      else (let name1 = snd item1; name2 = snd item2 in
            if name1 > name2 then 1
            else if name2 > name1 then - 1
            else 0))"

text \<open>
  \<open>functools.cmp_to_key(self.compare)\<close> wraps each item in a key object \<open>K\<close> whose
  comparisons are those of \<open>compare\<close> against zero: \<open>a < b\<close> is \<open>compare(a.obj, b.obj) < 0\<close>
  and \<open>a <= b\<close> is \<open>compare(a.obj, b.obj) <= 0\<close>.
\<close>

datatype cmp_key = K (the_obj: "nat \<times> card")

instantiation cmp_key :: linorder
begin

definition less_cmp_key :: "cmp_key \<Rightarrow> cmp_key \<Rightarrow> bool" where
  "less_cmp_key a b \<longleftrightarrow> compare (the_obj a) (the_obj b) < 0"

definition less_eq_cmp_key :: "cmp_key \<Rightarrow> cmp_key \<Rightarrow> bool" where
  "less_eq_cmp_key a b \<longleftrightarrow> compare (the_obj a) (the_obj b) \<le> 0"

instance
proof
  fix x y z :: cmp_key
  show "(x < y) = (x \<le> y \<and> \<not> y \<le> x)"
    by (auto simp: less_cmp_key_def less_eq_cmp_key_def compare_def Let_def)
  show "x \<le> x"
    by (simp add: less_eq_cmp_key_def compare_def)
  show "x \<le> y \<Longrightarrow> y \<le> z \<Longrightarrow> x \<le> z"
    by (auto simp: less_eq_cmp_key_def compare_def Let_def split: if_splits)
  show "x \<le> y \<Longrightarrow> y \<le> x \<Longrightarrow> x = y"
    by (cases x; cases y)
       (auto simp: less_eq_cmp_key_def compare_def Let_def prod_eq_iff split: if_splits)
  show "x \<le> y \<or> y \<le> x"
    by (auto simp: less_eq_cmp_key_def compare_def Let_def)
qed

end

text \<open>\<open>str(count)\<close> in the f-string: the decimal digits of a natural number.\<close>

fun str_nat :: "nat \<Rightarrow> string" where
  "str_nat n =
     (if n < 10 then [char_of (48 + n)]
      else str_nat (n div 10) @ [char_of (48 + n mod 10)])"

text \<open>
  \<^verbatim>\<open>
  def _format_name(self, card):
      if card in self.card_to_color:
          return colored(card, on_color=f"on_{self.card_to_color[card]}")
      return card
  \<close>
  \<open>colored\<close> belongs to the termcolor library: it is a parameter, taking the text and the
  \<open>on_color\<close> argument.
\<close>

definition format_name :: "(string \<Rightarrow> string \<Rightarrow> string) \<Rightarrow> Decks \<Rightarrow> card \<Rightarrow> string" where
  "format_name colored self c =
     (case map_of (card_to_color self) c of
        Some color \<Rightarrow> colored c (''on_'' @ color)
      | None \<Rightarrow> c)"

text \<open>
  \<^verbatim>\<open>
  def _print_formatting(self, lis):
      card_counts = {}
      reprs = []
      for card in lis:
          card_counts[card] = card_counts.get(card, 0) + 1
          # Sort by count, then name.
          card_tuples = [(v, k) for k, v in card_counts.items()]
          card_tuples.sort(key=cmp_to_key(self.compare))
          reprs = []
          for count, card in card_tuples:
              name = f"x{count} " + self._format_name(card)
              reprs.append(name)
      return reprs
  \<close>
  The loop state is \<open>(card_counts, card_tuples, reprs)\<close>; the sort and the rendering are
  inside the loop body, as in the source. \<open>list.sort\<close> is stable, as \<open>sort_key\<close> is.
  \<open>card_tuples\<close> is unbound before the first iteration; the state starts with the empty
  list in its place. \<open>fmt\<close> stands for \<open>self._format_name\<close>.
\<close>

definition count_card :: "(card \<times> nat) list \<Rightarrow> card \<Rightarrow> (card \<times> nat) list" where
  "count_card card_counts c =
     AList.update c ((case map_of card_counts c of None \<Rightarrow> 0 | Some v \<Rightarrow> v) + 1) card_counts"

definition render :: "(card \<Rightarrow> string) \<Rightarrow> nat \<times> card \<Rightarrow> string" where
  "render fmt item = ''x'' @ str_nat (fst item) @ '' '' @ fmt (snd item)"

fun print_formatting_loop ::
  "(card \<Rightarrow> string) \<Rightarrow> card list \<Rightarrow>
   (card \<times> nat) list \<times> (nat \<times> card) list \<times> string list \<Rightarrow>
   (card \<times> nat) list \<times> (nat \<times> card) list \<times> string list" where
  "print_formatting_loop fmt [] st = st"
| "print_formatting_loop fmt (c # lis) (card_counts, card_tuples, reprs) =
     (let card_counts' = count_card card_counts c;
          card_tuples' = sort_key K (map (\<lambda>(k, v). (v, k)) card_counts');
          reprs' = map (render fmt) card_tuples'
      in print_formatting_loop fmt lis (card_counts', card_tuples', reprs'))"

definition print_formatting :: "(string \<Rightarrow> string \<Rightarrow> string) \<Rightarrow> Decks \<Rightarrow> card list \<Rightarrow> string list" where
  "print_formatting colored self lis =
     snd (snd (print_formatting_loop (format_name colored self) lis ([], [], [])))"

text \<open>The grouped summary: the value of \<open>card_tuples\<close> when the loop ends.\<close>

definition grouped_summary :: "(card \<Rightarrow> string) \<Rightarrow> card list \<Rightarrow> (nat \<times> card) list" where
  "grouped_summary fmt lis = fst (snd (print_formatting_loop fmt lis ([], [], [])))"

subsection \<open>Snapshots: load and save\<close>

text \<open>
  The values of the \<open>json\<close> library. An object is the list of its members in the order of
  the text, which is the insertion order of the \<open>dict\<close> it is read into or written from.
\<close>

datatype json =
    JNull
  | JBool bool
  | JNumber int
  | JString string
  | JArray "json list"
  | JObject "(string \<times> json) list"

text \<open>
  A file is represented by what \<open>json.load\<close> makes of its text: the value it parses to,
  or a failure to parse. \<open>json.dump\<close> writes a text that parses back to the dumped value
  (both are Python's library, not code of this repository). The file system is a store
  from names to files; opening for writing creates or overwrites the entry.
\<close>

datatype file_text = Json json | Malformed

type_synonym files = "string \<rightharpoonup> file_text"

definition SAVE_FILE_NAME :: string where
  "SAVE_FILE_NAME = ''save.json''"

definition STATE_FILE_NAME :: string where
  "STATE_FILE_NAME = ''state.json''"

text \<open>
  \<open>obj.get(key, default)\<close> on a parsed object. When the text repeats a key, the \<open>dict\<close>
  that \<open>json.load\<close> builds holds the value of the last member with that key.
\<close>

definition dict_get :: "(string \<times> json) list \<Rightarrow> string \<Rightarrow> json \<Rightarrow> json" where
  "dict_get obj key dflt = (case map_of (rev obj) key of None \<Rightarrow> dflt | Some v \<Rightarrow> v)"

text \<open>
  The attributes of \<open>Decks\<close> are typed here (\<open>list[list[str]]\<close>, \<open>list[str]\<close>,
  \<open>dict[str, str]\<close>, the annotations of \<open>__init__\<close>), so a parsed value is read at its
  annotated type. Python stores whatever value the file holds and raises nothing; a value
  of another shape has no counterpart in the record, and \<open>load\<close> answers \<open>Untyped\<close> for it.
\<close>

definition as_str :: "json \<Rightarrow> string option" where
  "as_str v = (case v of JString s \<Rightarrow> Some s | _ \<Rightarrow> None)"

definition as_cards :: "json \<Rightarrow> card list option" where
  "as_cards v = (case v of JArray xs \<Rightarrow> those (map as_str xs) | _ \<Rightarrow> None)"

definition as_decks :: "json \<Rightarrow> card list list option" where
  "as_decks v = (case v of JArray xs \<Rightarrow> those (map as_cards xs) | _ \<Rightarrow> None)"

definition as_colors :: "json \<Rightarrow> (card \<times> string) list option" where
  "as_colors v =
     (case v of
        JObject kvs \<Rightarrow> those (map (\<lambda>(k, c). map_option (Pair k) (as_str c)) kvs)
      | _ \<Rightarrow> None)"

text \<open>
  \<^verbatim>\<open>
  @staticmethod
  def load(file_name):
      try:
          with open(file_name, "rb") as file:
              obj = json.load(file)
      except FileNotFoundError:
          obj = {}
      return Decks(
          obj.get("infection", [[]]),
          obj.get("discard", []),
          obj.get("card_to_color", {}),
      )
  \<close>
  A parsed value that is not an object has no \<open>get\<close>: \<open>AttributeError\<close>.
\<close>

definition read_obj :: "files \<Rightarrow> string \<Rightarrow> error + json" where
  "read_obj fs file_name =
     (case fs file_name of
        None \<Rightarrow> Inr (JObject [])
      | Some Malformed \<Rightarrow> Inl JSONDecodeError
      | Some (Json v) \<Rightarrow> Inr v)"

text \<open>
  The three arguments handed to the constructor, as the code computes them: raw values,
  with no check of their shape.
\<close>

definition load_fields :: "files \<Rightarrow> string \<Rightarrow> error + json \<times> json \<times> json" where
  "load_fields fs file_name =
     (case read_obj fs file_name of
        Inl e \<Rightarrow> Inl e
      | Inr (JObject obj) \<Rightarrow>
          Inr (dict_get obj ''infection'' (JArray [JArray []]),
               dict_get obj ''discard'' (JArray []),
               dict_get obj ''card_to_color'' (JObject []))
      | Inr _ \<Rightarrow> Inl AttributeError)"

text \<open>The loaded object, its attributes read at their annotated types.\<close>

definition load :: "files \<Rightarrow> string \<Rightarrow> error + Decks" where
  "load fs file_name =
     (case load_fields fs file_name of
        Inl e \<Rightarrow> Inl e
      | Inr (infection, discard, colors) \<Rightarrow>
          (case (as_decks infection, as_cards discard, as_colors colors) of
             (Some i, Some d, Some cs) \<Rightarrow>
               Inr \<lparr>infection_deck = i, discard_pile = d, card_to_color = cs\<rparr>
           | _ \<Rightarrow> Inl Untyped))"

text \<open>
  \<^verbatim>\<open>
  def save(self, file_name):
      with open(file_name, "w") as file:
          json.dump(
              {
                  "infection": self.infection_deck,
                  "discard": self.discard_pile,
                  "card_to_color": self.card_to_color,
              },
              file,
              indent=4,
          )
  \<close>
\<close>

definition to_json :: "Decks \<Rightarrow> json" where
  "to_json self =
     JObject
       [(''infection'', JArray (map (\<lambda>deck. JArray (map JString deck)) (infection_deck self))),
        (''discard'', JArray (map JString (discard_pile self))),
        (''card_to_color'', JObject (map (\<lambda>(k, c). (k, JString c)) (card_to_color self)))]"

definition save :: "Decks \<Rightarrow> files \<Rightarrow> string \<Rightarrow> files" where
  "save self fs file_name = fs(file_name \<mapsto> Json (to_json self))"

subsection \<open>States reached from the default state\<close>

text \<open>
  The default state is what \<open>load\<close> returns when there is no file. The states the tool
  reaches from it are those obtained by the mutations, each command being one or several
  calls between a \<open>load\<close> and a \<open>save\<close>.
\<close>

definition default_state :: Decks where
  "default_state = \<lparr>infection_deck = [[]], discard_pile = [], card_to_color = []\<rparr>"

inductive reachable :: "Decks \<Rightarrow> bool" where
  r_default: "reachable default_state"
| r_draw: "reachable s \<Longrightarrow> draw s c = Inr s' \<Longrightarrow> reachable s'"
| r_reshuffle: "reachable s \<Longrightarrow> reachable (reshuffle_discard s)"
| r_remove: "reachable s \<Longrightarrow> reachable (remove_discard s c)"
| r_mark: "reachable s \<Longrightarrow> reachable (mark_card s c color)"
| r_unmark: "reachable s \<Longrightarrow> unmark_card s c = Inr s' \<Longrightarrow> reachable s'"

section \<open>Properties\<close>

subsection \<open>Unfolding draw\<close>

lemma draw_Nil: "infection_deck self = [] \<Longrightarrow> draw self c = Inl IndexError"
  by (simp add: draw_def)

lemma draw_Cons:
  "infection_deck self = deck0 # rest \<Longrightarrow>
   draw self c =
     Inr (self\<lparr>infection_deck :=
                (if c \<in> set deck0
                 then (if remove1 c deck0 = [] then rest else remove1 c deck0 # rest)
                 else deck0 # rest),
              discard_pile := sort (discard_pile self @ [c])\<rparr>)"
  by (simp add: draw_def)

subsection \<open>The sentinel deck\<close>

text \<open>
  Every state reached from the default state keeps the empty deck of the default state
  as its last deck: \<open>draw\<close> removes a deck only after taking a card out of it, and no card
  is ever in the empty deck. So \<open>infection_deck\<close> is never the empty list there, and
  \<open>draw\<close> succeeds.
\<close>

lemma reachable_sentinel:
  "reachable s \<Longrightarrow> infection_deck s \<noteq> [] \<and> last (infection_deck s) = []"
proof (induction rule: reachable.induct)
  case r_default
  then show ?case by (simp add: default_state_def)
next
  case (r_draw s c s')
  then show ?case
    by (cases "infection_deck s") (auto simp: draw_def split: if_splits)
next
  case (r_reshuffle s)
  then show ?case by (simp add: reshuffle_discard_def)
next
  case (r_remove s c)
  then show ?case by (simp add: remove_discard_def)
next
  case (r_mark s c color)
  then show ?case by (simp add: mark_card_def)
next
  case (r_unmark s c s')
  then show ?case by (auto simp: unmark_card_def split: if_splits)
qed

lemma reachable_draw_succeeds: "reachable s \<Longrightarrow> \<exists>s'. draw s c = Inr s'"
  using reachable_sentinel [of s] by (cases "infection_deck s") (auto simp: draw_def)

subsection \<open>C1: draw succeeds\<close>

text \<open>
  C1, as stated, fails: with \<open>infection_deck\<close> the empty list, the read of
  \<open>self.infection_deck[0]\<close> raises \<open>IndexError\<close>.
\<close>

theorem draw_empty_decks_counterexample:
  "draw \<lparr>infection_deck = [], discard_pile = [], card_to_color = []\<rparr> ''atlanta'' = Inl IndexError"
  by (simp add: draw_def)

text \<open>
  C1, amended: for every state whose \<open>infection_deck\<close> is not the empty list and every
  card \<open>c\<close>, \<open>draw\<close> succeeds, and the new discard pile is the old one with \<open>c\<close> appended,
  sorted, whether or not \<open>c\<close> was in the topmost deck.
\<close>

theorem draw_succeeds:
  assumes "infection_deck self \<noteq> []"
  shows "\<exists>self'. draw self c = Inr self' \<and> discard_pile self' = sort (discard_pile self @ [c])"
proof -
  obtain deck0 rest where "infection_deck self = deck0 # rest"
    using assms by (cases "infection_deck self") auto
  then show ?thesis
    by (simp add: draw_Cons)
qed

theorem draw_succeeds_witness:
  "infection_deck \<lparr>infection_deck = [[''atlanta'', ''boston''], [''cairo'']],
                   discard_pile = [''boston''], card_to_color = []\<rparr> \<noteq> []
   \<and> (\<exists>self'. draw \<lparr>infection_deck = [[''atlanta'', ''boston''], [''cairo'']],
                      discard_pile = [''boston''], card_to_color = []\<rparr> ''zagreb'' = Inr self'
        \<and> discard_pile self' = [''boston'', ''zagreb''])"
  using draw_succeeds [of "\<lparr>infection_deck = [[''atlanta'', ''boston''], [''cairo'']],
                   discard_pile = [''boston''], card_to_color = []\<rparr>" "''zagreb''"]
  by simp

subsection \<open>C2: the epidemic scenario\<close>

text \<open>
  C2, as stated, fails: \<open>''epidemic''\<close> is not in the empty deck, so \<open>draw\<close> does not enter
  the branch that removes a deck, and \<open>infection_deck\<close> is not \<open>[]\<close> afterwards.
\<close>

theorem draw_epidemic_counterexample:
  "draw default_state ''epidemic''
     \<noteq> Inr \<lparr>infection_deck = [], discard_pile = [''epidemic''], card_to_color = []\<rparr>"
  by (simp add: draw_def default_state_def)

text \<open>
  C2, amended: loading with no file gives the default state; from it,
  \<open>draw ''epidemic''\<close> gives the discard pile \<open>[''epidemic'']\<close> and leaves \<open>infection_deck\<close>
  at \<open>[[]]\<close>; \<open>reshuffle_discard\<close> then gives \<open>infection_deck = [[''epidemic''], []]\<close> and
  the empty discard pile.
\<close>

theorem draw_epidemic_scenario:
  "load Map.empty STATE_FILE_NAME = Inr default_state
   \<and> draw default_state ''epidemic''
       = Inr \<lparr>infection_deck = [[]], discard_pile = [''epidemic''], card_to_color = []\<rparr>
   \<and> reshuffle_discard \<lparr>infection_deck = [[]], discard_pile = [''epidemic''], card_to_color = []\<rparr>
       = \<lparr>infection_deck = [[''epidemic''], []], discard_pile = [], card_to_color = []\<rparr>"
  by (simp add: load_def load_fields_def read_obj_def dict_get_def as_decks_def as_cards_def
      as_colors_def default_state_def draw_def reshuffle_discard_def)

subsection \<open>C3: empty decks in the sequence\<close>

text \<open>
  C3, as stated, fails: a draw from the default state leaves the empty deck in place, and
  after \<open>reshuffle_discard\<close> the sequence holds an empty deck and is not \<open>[[]]\<close>.
\<close>

theorem sentinel_kept_counterexample:
  "draw default_state ''atlanta''
     = Inr \<lparr>infection_deck = [[]], discard_pile = [''atlanta''], card_to_color = []\<rparr>
   \<and> reshuffle_discard \<lparr>infection_deck = [[]], discard_pile = [''atlanta''], card_to_color = []\<rparr>
     = \<lparr>infection_deck = [[''atlanta''], []], discard_pile = [], card_to_color = []\<rparr>
   \<and> [] \<in> set (infection_deck
        \<lparr>infection_deck = [[''atlanta''], []], discard_pile = [], card_to_color = []\<rparr>)
   \<and> infection_deck \<lparr>infection_deck = [[''atlanta''], []], discard_pile = [], card_to_color = []\<rparr>
       \<noteq> [[]]"
  by (simp add: default_state_def draw_def reshuffle_discard_def)

lemma draw_above_sentinel:
  "[] \<notin> set (butlast (infection_deck self)) \<Longrightarrow>
   [] \<notin> set (butlast (infection_deck (state_after self (draw self c))))"
  by (cases "infection_deck self")
     (auto simp: state_after_def draw_def dest: in_set_butlastD split: if_splits)

lemma reshuffle_above_sentinel:
  "[] \<notin> set (butlast (infection_deck self)) \<Longrightarrow>
   [] \<notin> set (butlast (infection_deck (reshuffle_discard self)))"
  by (auto simp: reshuffle_discard_def split: if_splits)

lemma reachable_above_sentinel:
  "reachable s \<Longrightarrow> [] \<notin> set (butlast (infection_deck s))"
proof (induction rule: reachable.induct)
  case r_default
  then show ?case by (simp add: default_state_def)
next
  case (r_draw s c s')
  then show ?case
    using draw_above_sentinel [of s c] by (simp add: state_after_def)
next
  case (r_reshuffle s)
  then show ?case by (simp add: reshuffle_above_sentinel)
next
  case (r_remove s c)
  then show ?case by (simp add: remove_discard_def)
next
  case (r_mark s c color)
  then show ?case by (simp add: mark_card_def)
next
  case (r_unmark s c s')
  then show ?case by (auto simp: unmark_card_def split: if_splits)
qed

lemma reachable_example:
  "reachable \<lparr>infection_deck = [[''atlanta''], []], discard_pile = [], card_to_color = []\<rparr>"
proof -
  have "draw default_state ''atlanta''
      = Inr \<lparr>infection_deck = [[]], discard_pile = [''atlanta''], card_to_color = []\<rparr>"
    by (simp add: draw_def default_state_def)
  then have "reachable \<lparr>infection_deck = [[]], discard_pile = [''atlanta''], card_to_color = []\<rparr>"
    using r_draw [OF r_default] by blast
  then have "reachable (reshuffle_discard
      \<lparr>infection_deck = [[]], discard_pile = [''atlanta''], card_to_color = []\<rparr>)"
    by (rule r_reshuffle)
  then show ?thesis by (simp add: reshuffle_discard_def)
qed

text \<open>
  C3, amended: an empty deck occurs in \<open>infection_deck\<close> at most as its last element. This
  holds in the default state \<open>[[]]\<close>, and each of \<open>draw\<close>, \<open>reshuffle_discard\<close>,
  \<open>remove_discard\<close>, \<open>mark_card\<close> and \<open>unmark_card\<close> preserves it, from any state; a
  topmost deck whose only card is drawn is removed from the sequence (third conjunct: the
  decks under \<open>[c]\<close> are what is left); and in every state reached from the default state
  the sequence is not empty, its last deck is the empty sentinel deck, which no
  operation removes, and no deck before the last is empty.
\<close>

theorem empty_deck_only_last:
  "[] \<notin> set (butlast (infection_deck default_state))
   \<and> ([] \<notin> set (butlast (infection_deck self)) \<longrightarrow>
        [] \<notin> set (butlast (infection_deck (state_after self (draw self c))))
      \<and> [] \<notin> set (butlast (infection_deck (reshuffle_discard self)))
      \<and> [] \<notin> set (butlast (infection_deck (remove_discard self c)))
      \<and> [] \<notin> set (butlast (infection_deck (mark_card self c color)))
      \<and> [] \<notin> set (butlast (infection_deck (state_after self (unmark_card self c)))))
   \<and> draw (self\<lparr>infection_deck := [c] # infection_deck self\<rparr>) c
       = Inr (self\<lparr>discard_pile := sort (discard_pile self @ [c])\<rparr>)
   \<and> (reachable s \<longrightarrow>
        infection_deck s \<noteq> [] \<and> last (infection_deck s) = []
      \<and> [] \<notin> set (butlast (infection_deck s)))"
proof -
  have 0: "[] \<notin> set (butlast (infection_deck default_state))"
    by (simp add: default_state_def)
  have 1: "[] \<notin> set (butlast (infection_deck (remove_discard self c)))"
    if "[] \<notin> set (butlast (infection_deck self))"
    using that by (simp add: remove_discard_def)
  have 2: "[] \<notin> set (butlast (infection_deck (mark_card self c color)))"
    if "[] \<notin> set (butlast (infection_deck self))"
    using that by (simp add: mark_card_def)
  have 3: "[] \<notin> set (butlast (infection_deck (state_after self (unmark_card self c))))"
    if "[] \<notin> set (butlast (infection_deck self))"
    using that by (simp add: unmark_card_def state_after_def)
  have 4: "draw (self\<lparr>infection_deck := [c] # infection_deck self\<rparr>) c
       = Inr (self\<lparr>discard_pile := sort (discard_pile self @ [c])\<rparr>)"
    by (simp add: draw_def)
  from 0 1 2 3 4 draw_above_sentinel [of self c] reshuffle_above_sentinel [of self]
    reachable_sentinel [of s] reachable_above_sentinel [of s]
  show ?thesis by blast
qed

theorem empty_deck_only_last_witness:
  "[] \<notin> set (butlast (infection_deck
       \<lparr>infection_deck = [[''atlanta''], []], discard_pile = [], card_to_color = []\<rparr>))
   \<and> reachable \<lparr>infection_deck = [[''atlanta''], []], discard_pile = [], card_to_color = []\<rparr>
   \<and> state_after \<lparr>infection_deck = [[''atlanta''], []], discard_pile = [], card_to_color = []\<rparr>
        (draw \<lparr>infection_deck = [[''atlanta''], []], discard_pile = [], card_to_color = []\<rparr>
           ''atlanta'')
       = \<lparr>infection_deck = [[]], discard_pile = [''atlanta''], card_to_color = []\<rparr>
   \<and> [] \<notin> set (butlast (infection_deck
       \<lparr>infection_deck = [[]], discard_pile = [''atlanta''], card_to_color = []\<rparr>))
   \<and> last (infection_deck
       \<lparr>infection_deck = [[''atlanta''], []], discard_pile = [], card_to_color = []\<rparr>) = []"
  using empty_deck_only_last [of
      "\<lparr>infection_deck = [[''atlanta''], []], discard_pile = [], card_to_color = []\<rparr>"
      "''atlanta''" "''red''"
      "\<lparr>infection_deck = [[''atlanta''], []], discard_pile = [], card_to_color = []\<rparr>"]
    reachable_example
  by (simp add: draw_def state_after_def)

subsection \<open>C4: the discard pile after a draw, and its order\<close>

lemma count_list_insort: "count_list (insort_key f x xs) y = count_list (x # xs) y"
  by (induction xs) auto

lemma count_list_sort: "count_list (sort_key f xs) y = count_list xs y"
  by (induction xs) (simp_all add: count_list_insort)

text \<open>
  C4, as stated for every state, fails where \<open>infection_deck\<close> is the empty list: \<open>draw\<close>
  raises, and no state follows in which the card occurs once more.
\<close>

theorem draw_failed_count_counterexample:
  "\<not> (\<exists>self'. draw \<lparr>infection_deck = [], discard_pile = [], card_to_color = []\<rparr> ''atlanta'' = Inr self'
         \<and> count_list (discard_pile self') ''atlanta'' = count_list [] ''atlanta'' + 1
         \<and> sorted (discard_pile self'))"
  by (simp add: draw_def)

text \<open>
  C4, amended: for every state whose \<open>infection_deck\<close> is not the empty list and every
  card \<open>c\<close>, \<open>draw\<close> succeeds, \<open>c\<close> occurs in the new discard pile exactly once more than
  in the old one, and the new discard pile is sorted ascending; and for every state, a
  discard pile that is sorted before a mutation (\<open>draw\<close>, failed or not,
  \<open>reshuffle_discard\<close>, \<open>remove_discard\<close>, \<open>mark_card\<close>, \<open>unmark_card\<close>) is sorted
  after it.
\<close>

theorem discard_pile_count_sorted:
  "(infection_deck self \<noteq> [] \<longrightarrow>
      (\<exists>self'. draw self c = Inr self'
         \<and> count_list (discard_pile self') c = count_list (discard_pile self) c + 1
         \<and> sorted (discard_pile self')))
   \<and> (sorted (discard_pile self) \<longrightarrow>
        sorted (discard_pile (state_after self (draw self c)))
      \<and> sorted (discard_pile (reshuffle_discard self))
      \<and> sorted (discard_pile (remove_discard self d))
      \<and> sorted (discard_pile (mark_card self d color))
      \<and> sorted (discard_pile (state_after self (unmark_card self d))))"
proof -
  have 1: "\<exists>self'. draw self c = Inr self'
         \<and> count_list (discard_pile self') c = count_list (discard_pile self) c + 1
         \<and> sorted (discard_pile self')" if ne: "infection_deck self \<noteq> []"
  proof -
    obtain deck0 rest where "infection_deck self = deck0 # rest"
      using ne by (cases "infection_deck self") auto
    then show ?thesis
      by (simp add: draw_Cons count_list_sort)
  qed
  have 2: "sorted (discard_pile (state_after self (draw self c)))" if "sorted (discard_pile self)"
    using that by (cases "infection_deck self") (simp_all add: draw_def state_after_def)
  have 3: "sorted (discard_pile (reshuffle_discard self))" if "sorted (discard_pile self)"
    using that by (simp add: reshuffle_discard_def)
  have 4: "sorted (discard_pile (remove_discard self d))" if "sorted (discard_pile self)"
    using that by (simp add: remove_discard_def sorted_remove1)
  have 5: "sorted (discard_pile (mark_card self d color))" if "sorted (discard_pile self)"
    using that by (simp add: mark_card_def)
  have 6: "sorted (discard_pile (state_after self (unmark_card self d)))" if "sorted (discard_pile self)"
    using that by (simp add: unmark_card_def state_after_def)
  from 1 2 3 4 5 6 show ?thesis by blast
qed

theorem discard_pile_count_sorted_witness:
  "infection_deck \<lparr>infection_deck = [[''atlanta'', ''cairo'']],
                   discard_pile = [''atlanta'', ''boston''], card_to_color = []\<rparr> \<noteq> []
   \<and> sorted (discard_pile \<lparr>infection_deck = [[''atlanta'', ''cairo'']],
                   discard_pile = [''atlanta'', ''boston''], card_to_color = []\<rparr>)
   \<and> draw \<lparr>infection_deck = [[''atlanta'', ''cairo'']],
            discard_pile = [''atlanta'', ''boston''], card_to_color = []\<rparr> ''atlanta''
       = Inr \<lparr>infection_deck = [[''cairo'']],
              discard_pile = [''atlanta'', ''atlanta'', ''boston''], card_to_color = []\<rparr>
   \<and> count_list [''atlanta'', ''atlanta'', ''boston''] ''atlanta''
       = count_list [''atlanta'', ''boston''] ''atlanta'' + 1
   \<and> sorted [''atlanta'', ''atlanta'', ''boston'']
   \<and> sorted (discard_pile (remove_discard \<lparr>infection_deck = [[''atlanta'', ''cairo'']],
                   discard_pile = [''atlanta'', ''boston''], card_to_color = []\<rparr> ''atlanta''))"
  using discard_pile_count_sorted [of "\<lparr>infection_deck = [[''atlanta'', ''cairo'']],
                   discard_pile = [''atlanta'', ''boston''], card_to_color = []\<rparr>"
                   "''atlanta''" "''atlanta''" "''red''"]
  by (simp add: draw_def remove_discard_def)

subsection \<open>C5: the grouped summary\<close>

text \<open>What the loop leaves in each of its three variables.\<close>

lemma loop_tuples:
  "fst (snd (print_formatting_loop fmt lis (cc, ct, rs))) =
     (if lis = [] then ct else sort_key K (map (\<lambda>(k, v). (v, k)) (foldl count_card cc lis)))"
proof (induction lis arbitrary: cc ct rs)
  case Nil
  then show ?case by simp
next
  case (Cons c lis)
  then show ?case by (cases lis) (simp_all add: Let_def)
qed

lemma loop_reprs:
  "snd (snd (print_formatting_loop fmt lis (cc, ct, rs))) =
     (if lis = [] then rs else map (render fmt) (fst (snd (print_formatting_loop fmt lis (cc, ct, rs)))))"
proof (induction lis arbitrary: cc ct rs)
  case Nil
  then show ?case by simp
next
  case (Cons c lis)
  then show ?case by (cases lis) (simp_all add: Let_def)
qed

lemma grouped_summary_eq:
  "grouped_summary fmt lis = sort_key K (map (\<lambda>(k, v). (v, k)) (foldl count_card [] lis))"
  by (cases lis) (simp_all add: grouped_summary_def loop_tuples del: print_formatting_loop.simps)

text \<open>The returned strings are the renderings of the summary's groups, in its order.\<close>

lemma print_formatting_eq:
  "print_formatting colored self lis =
     map (render (format_name colored self)) (grouped_summary (format_name colored self) lis)"
  by (simp add: print_formatting_def grouped_summary_def loop_reprs loop_tuples
      del: print_formatting_loop.simps)

text \<open>The dictionary of counts.\<close>

lemma distinct_count_card:
  "distinct (map fst cc) \<Longrightarrow> distinct (map fst (count_card cc c))"
  by (simp add: count_card_def AList.distinct_update)

lemma distinct_counts:
  "distinct (map fst cc) \<Longrightarrow> distinct (map fst (foldl count_card cc lis))"
  by (induction lis arbitrary: cc) (simp_all add: distinct_count_card)

lemma map_of_counts:
  "map_of (foldl count_card cc lis) k =
     (if k \<in> set lis
      then Some (count_list lis k + (case map_of cc k of None \<Rightarrow> 0 | Some v \<Rightarrow> v))
      else map_of cc k)"
proof (induction lis arbitrary: cc)
  case Nil
  then show ?case by simp
next
  case (Cons c lis)
  have "map_of (foldl count_card cc (c # lis)) k = map_of (foldl count_card (count_card cc c) lis) k"
    by simp
  also have "\<dots> =
     (if k \<in> set lis
      then Some (count_list lis k + (case map_of (count_card cc c) k of None \<Rightarrow> 0 | Some v \<Rightarrow> v))
      else map_of (count_card cc c) k)"
    by (rule Cons.IH)
  also have "\<dots> =
     (if k \<in> set (c # lis)
      then Some (count_list (c # lis) k + (case map_of cc k of None \<Rightarrow> 0 | Some v \<Rightarrow> v))
      else map_of cc k)"
    by (simp add: count_card_def AList.update_conv')
  finally show ?case .
qed

lemma set_counts:
  "set (foldl count_card [] lis) = (\<lambda>k. (k, count_list lis k)) ` set lis"
proof -
  have d: "distinct (map fst (foldl count_card [] lis))"
    by (simp add: distinct_counts)
  show ?thesis
  proof (rule set_eqI)
    fix p :: "card \<times> nat"
    have "p \<in> set (foldl count_card [] lis) \<longleftrightarrow> map_of (foldl count_card [] lis) (fst p) = Some (snd p)"
      using d by (cases p) simp
    also have "\<dots> \<longleftrightarrow> p \<in> (\<lambda>k. (k, count_list lis k)) ` set lis"
      by (cases p) (auto simp: map_of_counts)
    finally show "p \<in> set (foldl count_card [] lis) \<longleftrightarrow> p \<in> (\<lambda>k. (k, count_list lis k)) ` set lis" .
  qed
qed

lemma set_grouped_summary:
  "set (grouped_summary fmt lis) = (\<lambda>k. (count_list lis k, k)) ` set lis"
  by (auto simp: grouped_summary_eq set_counts image_iff)

lemma distinct_grouped_summary: "distinct (map snd (grouped_summary fmt lis))"
proof -
  have "map snd (map (\<lambda>(k, v). (v, k)) (foldl count_card [] lis)) = map fst (foldl count_card [] lis)"
    by (simp add: comp_def case_prod_unfold)
  moreover have "distinct (map fst (foldl count_card [] lis))"
    by (simp add: distinct_counts)
  ultimately have "distinct (map snd (map (\<lambda>(k, v). (v, k)) (foldl count_card [] lis)))"
    by (simp only:)
  then have "distinct (map snd (sort_key K (map (\<lambda>(k, v). (v, k)) (foldl count_card [] lis))))"
    by (metis distinct_map distinct_sort set_sort)
  then show ?thesis by (simp add: grouped_summary_eq)
qed

text \<open>The order of the key objects, spelled out on the items.\<close>

lemma K_less_iff:
  "K a < K b \<longleftrightarrow> fst b < fst a \<or> (fst a = fst b \<and> snd a < snd b)"
  by (auto simp: less_cmp_key_def compare_def Let_def)

lemma sorted_grouped_summary:
  "sorted_wrt (\<lambda>a b. fst b < fst a \<or> (fst a = fst b \<and> snd a < snd b)) (grouped_summary fmt lis)"
proof -
  let ?ts = "grouped_summary fmt lis"
  have "sorted (map K ?ts)"
    by (simp add: grouped_summary_eq)
  moreover have "distinct (map K ?ts)"
    using distinct_grouped_summary [of fmt lis]
    by (simp add: distinct_map inj_on_def)
  ultimately have "sorted_wrt (<) (map K ?ts)"
    by (simp add: strict_sorted_iff)
  then have "sorted_wrt (\<lambda>a b. K a < K b) ?ts"
    by (simp add: sorted_wrt_map)
  then show ?thesis
    by (simp add: K_less_iff)
qed

lemma example_summary:
  "grouped_summary fmt [''b'', ''a'', ''b'', ''c'', ''a'', ''a''] = [(3, ''a''), (2, ''b''), (1, ''c'')]"
  by (simp add: grouped_summary_def count_card_def Let_def less_eq_cmp_key_def compare_def)

text \<open>
  C5: the summary of a sequence \<open>lis\<close> has exactly one group \<open>(count, k)\<close> for each
  identifier \<open>k\<close> of \<open>lis\<close>, with \<open>count\<close> the number of occurrences of \<open>k\<close> in \<open>lis\<close>; each
  group stands before every later one by a larger count or, at equal counts, by a smaller
  identifier; and the summary of \<open>[''b'', ''a'', ''b'', ''c'', ''a'', ''a'']\<close> is
  \<open>[(3, ''a''), (2, ''b''), (1, ''c'')]\<close>. It is a function of the sequence alone, defined on
  every sequence (the renderer \<open>fmt\<close> does not enter it).
\<close>

theorem grouped_summary_correct:
  "set (grouped_summary fmt lis) = (\<lambda>k. (count_list lis k, k)) ` set lis
   \<and> distinct (map snd (grouped_summary fmt lis))
   \<and> sorted_wrt (\<lambda>a b. fst b < fst a \<or> (fst a = fst b \<and> snd a < snd b)) (grouped_summary fmt lis)
   \<and> grouped_summary fmt lis = grouped_summary fmt' lis
   \<and> grouped_summary fmt [''b'', ''a'', ''b'', ''c'', ''a'', ''a'']
       = [(3, ''a''), (2, ''b''), (1, ''c'')]"
  using set_grouped_summary [of fmt lis] distinct_grouped_summary [of fmt lis]
    sorted_grouped_summary [of fmt lis] example_summary [of fmt]
    grouped_summary_eq [of fmt lis] grouped_summary_eq [of fmt' lis]
  by simp

subsection \<open>C6: save, then load\<close>

lemma those_map_Some: "those (map (\<lambda>x. Some (g x)) xs) = Some (map g xs)"
  by (induction xs) simp_all

lemma as_cards_dump: "as_cards (JArray (map JString xs)) = Some xs"
  using those_map_Some [of "\<lambda>x. x" xs] by (simp add: as_cards_def as_str_def comp_def)

lemma as_decks_dump: "as_decks (JArray (map (\<lambda>deck. JArray (map JString deck)) ds)) = Some ds"
  using those_map_Some [of "\<lambda>x. x" ds] by (simp add: as_decks_def as_cards_dump comp_def)

lemma as_colors_dump: "as_colors (JObject (map (\<lambda>(k, c). (k, JString c)) kvs)) = Some kvs"
  using those_map_Some [of "\<lambda>x. x" kvs]
  by (simp add: as_colors_def as_str_def comp_def case_prod_unfold)

text \<open>
  C6: for every state and every file name, in every file system, \<open>save\<close> followed by
  \<open>load\<close> of the same name returns the saved state: the same decks in the same order, the
  same discard pile, the same colour entries.
\<close>

theorem save_load_round_trip: "load (save self fs file_name) file_name = Inr self"
  by (simp add: load_def load_fields_def save_def read_obj_def to_json_def dict_get_def
      as_cards_dump as_decks_dump as_colors_dump)

subsection \<open>C7: unmarking\<close>

text \<open>
  C7: \<open>unmark_card\<close> fails with \<open>KeyError\<close> exactly when the card has no entry in
  \<open>card_to_color\<close>, and succeeds exactly when it has one; from any state,
  \<open>mark_card ''atlanta'' ''red''\<close> followed by \<open>unmark_card ''atlanta''\<close> succeeds and
  leaves ''atlanta'' without entry (the other entries as before), and a second
  \<open>unmark_card ''atlanta''\<close> fails with \<open>KeyError\<close>.
\<close>

theorem unmark_card_key_error:
  "(unmark_card self c = Inl KeyError) = (map_of (card_to_color self) c = None)
   \<and> (\<exists>self'. unmark_card self c = Inr self') = (map_of (card_to_color self) c \<noteq> None)
   \<and> (\<exists>self'. unmark_card (mark_card self ''atlanta'' ''red'') ''atlanta'' = Inr self'
         \<and> map_of (card_to_color self') = (map_of (card_to_color self))(''atlanta'' := None)
         \<and> unmark_card self' ''atlanta'' = Inl KeyError)"
  by (auto simp: unmark_card_def mark_card_def map_of_eq_None_iff AList.dom_update
      AList.delete_conv' AList.update_conv' AList.delete_notin_dom)

subsection \<open>C8: reshuffling twice\<close>

text \<open>
  C8: \<open>reshuffle_discard\<close> applied twice gives the state of applying it once; with an
  empty discard pile it changes nothing, and otherwise it puts the discard pile, in its
  order, in front of \<open>infection_deck\<close> as one deck and empties the discard pile.
\<close>

theorem reshuffle_discard_idempotent:
  "reshuffle_discard (reshuffle_discard self) = reshuffle_discard self
   \<and> reshuffle_discard self =
       (if discard_pile self = [] then self
        else self\<lparr>infection_deck := discard_pile self # infection_deck self, discard_pile := []\<rparr>)"
  by (simp add: reshuffle_discard_def)

subsection \<open>C9: the emptied deck is removed\<close>

text \<open>
  C9: when the topmost deck contains \<open>c\<close> and removing the first \<open>c\<close> empties it, \<open>draw c\<close>
  succeeds, \<open>infection_deck\<close> becomes the sequence of the decks below, one shorter, and
  its first deck, if any, is the deck that was at index 1.
\<close>

theorem draw_pops_emptied_deck:
  assumes "infection_deck self = deck0 # rest" and "c \<in> set deck0" and "remove1 c deck0 = []"
  shows "\<exists>self'. draw self c = Inr self'
           \<and> infection_deck self' = rest
           \<and> Suc (length (infection_deck self')) = length (infection_deck self)
           \<and> take 1 (infection_deck self') = take 1 (drop 1 (infection_deck self))"
  using assms by (simp add: draw_Cons)

theorem draw_pops_emptied_deck_witness:
  "infection_deck \<lparr>infection_deck = [[''atlanta''], [''boston'', ''cairo''], [''delhi'']],
                   discard_pile = [], card_to_color = []\<rparr>
     = [''atlanta''] # [[''boston'', ''cairo''], [''delhi'']]
   \<and> ''atlanta'' \<in> set [''atlanta'']
   \<and> remove1 ''atlanta'' [''atlanta''] = []
   \<and> draw \<lparr>infection_deck = [[''atlanta''], [''boston'', ''cairo''], [''delhi'']],
            discard_pile = [], card_to_color = []\<rparr> ''atlanta''
       = Inr \<lparr>infection_deck = [[''boston'', ''cairo''], [''delhi'']],
              discard_pile = [''atlanta''], card_to_color = []\<rparr>"
  using draw_pops_emptied_deck [of "\<lparr>infection_deck = [[''atlanta''], [''boston'', ''cairo''], [''delhi'']],
                   discard_pile = [], card_to_color = []\<rparr>" "[''atlanta'']"
                   "[[''boston'', ''cairo''], [''delhi'']]" "''atlanta''"]
  by (simp add: draw_def)

subsection \<open>C10: what the mutations leave alone\<close>

text \<open>
  C10: with \<open>infection_deck\<close> not empty, \<open>draw\<close> succeeds, leaves \<open>card_to_color\<close> as it
  was, and leaves the decks below the topmost one as they were, in their order (they are
  the whole new sequence when the topmost deck was removed, and its tail otherwise);
  \<open>remove_discard\<close>, \<open>mark_card\<close> and \<open>unmark_card\<close> leave \<open>infection_deck\<close> as it was, and
  \<open>mark_card\<close> and \<open>unmark_card\<close> leave \<open>discard_pile\<close> as it was.
\<close>

theorem frame_properties:
  assumes "infection_deck self \<noteq> []"
  shows "\<exists>self'. draw self c = Inr self'
        \<and> card_to_color self' = card_to_color self
        \<and> (infection_deck self' = tl (infection_deck self)
             \<or> tl (infection_deck self') = tl (infection_deck self))
        \<and> infection_deck (remove_discard self d) = infection_deck self
        \<and> infection_deck (mark_card self d color) = infection_deck self
        \<and> infection_deck (state_after self (unmark_card self d)) = infection_deck self
        \<and> discard_pile (mark_card self d color) = discard_pile self
        \<and> discard_pile (state_after self (unmark_card self d)) = discard_pile self"
proof -
  obtain deck0 rest where "infection_deck self = deck0 # rest"
    using assms by (cases "infection_deck self") auto
  then show ?thesis
    by (simp add: draw_Cons remove_discard_def mark_card_def unmark_card_def state_after_def)
qed

theorem frame_properties_witness:
  "infection_deck \<lparr>infection_deck = [[''atlanta'', ''boston''], [''cairo'']],
                   discard_pile = [''delhi''], card_to_color = [(''cairo'', ''red'')]\<rparr> \<noteq> []
   \<and> draw \<lparr>infection_deck = [[''atlanta'', ''boston''], [''cairo'']],
            discard_pile = [''delhi''], card_to_color = [(''cairo'', ''red'')]\<rparr> ''boston''
       = Inr \<lparr>infection_deck = [[''atlanta''], [''cairo'']],
              discard_pile = [''boston'', ''delhi''], card_to_color = [(''cairo'', ''red'')]\<rparr>
   \<and> unmark_card \<lparr>infection_deck = [[''atlanta'', ''boston''], [''cairo'']],
            discard_pile = [''delhi''], card_to_color = [(''cairo'', ''red'')]\<rparr> ''cairo''
       = Inr \<lparr>infection_deck = [[''atlanta'', ''boston''], [''cairo'']],
              discard_pile = [''delhi''], card_to_color = []\<rparr>"
  using frame_properties [of "\<lparr>infection_deck = [[''atlanta'', ''boston''], [''cairo'']],
                   discard_pile = [''delhi''], card_to_color = [(''cairo'', ''red'')]\<rparr>"
                   "''boston''" "''cairo''" "''yellow''"]
  by (simp add: draw_def unmark_card_def)

end
